theory Spec2Isabelle
  imports Main
begin

section \<open>Data model of \<open>glm_cli.py\<close>\<close>

text \<open>
  The script reads one environment variable, reads all of standard input, issues one
  streaming chat-completion call through the vendor client and relays the streamed text
  to standard output. It is embedded as a function from what the process receives (the
  environment, the text of standard input, the behaviour of the remote service) to the
  ordered list of effects it performs. Standard output, standard error, the requests
  sent and the exit status are read off that list.

  A Python \<open>str\<close> is a sequence of Unicode code points, so it is a list of naturals here
  (the diagnostics contain code points above 255, which a \<open>char\<close> cannot hold).

  Standard input is given as the text that \<open>sys.stdin.read()\<close> returns and a response
  is a finite list of chunks with the way its iteration ends. A \<open>print\<close> to standard
  output returns or raises as the standard output of the run decides; the diagnostics
  written to standard error are taken to succeed. The list of effects holds what the
  statements of the script did and the status the process ended with; what the
  interpreter itself reports while it shuts down is not part of it.
\<close>

type_synonym str = "nat list"

definition ascii :: "string \<Rightarrow> str" where
  "ascii s = map of_char s"

definition newline :: str where
  "newline = [10]"

text \<open>
  \<open>str.strip()\<close> without argument removes leading and trailing white space; CPython
  decides white space per code point with the table below (tab to carriage return, the
  four separators 0x1C to 0x1F, space, NEL, no-break space and the Unicode space
  separators, line and paragraph separator).
\<close>

definition isspace :: "nat \<Rightarrow> bool" where
  "isspace c \<longleftrightarrow>
     (0x09 \<le> c \<and> c \<le> 0x0D) \<or> (0x1C \<le> c \<and> c \<le> 0x20) \<or> c = 0x85 \<or> c = 0xA0 \<or>
     c = 0x1680 \<or> (0x2000 \<le> c \<and> c \<le> 0x200A) \<or> c = 0x2028 \<or> c = 0x2029 \<or>
     c = 0x202F \<or> c = 0x205F \<or> c = 0x3000"

definition strip :: "str \<Rightarrow> str" where
  "strip s = rev (dropWhile isspace (rev (dropWhile isspace s)))"

text \<open>Truth value of an \<open>Optional[str]\<close>: \<open>None\<close> and the empty string are false.\<close>

fun truthy :: "str option \<Rightarrow> bool" where
  "truthy None = False"
| "truthy (Some s) = (s \<noteq> [])"

text \<open>\<open>os.environ\<close> is a dictionary from names to values.\<close>

type_synonym environ = "str \<rightharpoonup> str"

subsection \<open>The vendor client, as far as the script uses it\<close>

text \<open>
  The keyword arguments of \<open>client.chat.completions.create\<close>; each message is a
  dictionary literal, kept as the list of its items.
\<close>

record request =
  model :: str
  messages :: "(str \<times> str) list list"
  stream :: bool

datatype client = ZhipuAI (api_key: str)

text \<open>
  A streamed chunk is read as \<open>chunk.choices[0].delta.content\<close>: a list of choices, each
  with a delta whose content is a string or \<open>None\<close>.
\<close>

record choice_delta =
  content :: "str option"

record choice =
  delta :: choice_delta

record chunk =
  choices :: "choice list"

text \<open>
  Only instances of \<open>Exception\<close> are caught by the handler, and the handler uses nothing
  but \<open>str(e)\<close>, so an exception is its message.
\<close>

datatype exn = Exception str

fun str_of :: "exn \<Rightarrow> str" where
  "str_of (Exception m) = m"

definition IndexError :: exn where
  "IndexError = Exception (ascii ''list index out of range'')"

text \<open>
  What the remote service does with a request: the call itself raises, or it returns a
  response whose iteration yields finitely many chunks and then either stops or raises.
\<close>

datatype stream_end = StopIteration | StreamRaise exn

datatype create_result = CreateRaise exn | Response "chunk list" stream_end

type_synonym service = "client \<Rightarrow> request \<Rightarrow> create_result"

subsection \<open>Standard output\<close>

text \<open>
  \<open>sys.stdout\<close> is a buffered text stream. A \<open>print\<close> to it returns, or raises before
  the text enters the buffer (the text cannot be encoded), or raises while the buffer is
  flushed (the pipe is closed, the disk is full), and then the text stays in the buffer.
  When the process ends the interpreter flushes what the buffer still holds.
  How a run's standard output behaves is a parameter: \<open>put\<close> answers a \<open>print\<close> from the
  text taken so far, the text to write and whether \<open>flush=True\<close> was given, and
  \<open>flush_at_exit\<close> says whether the last flush succeeds after the text taken so far.
\<close>

datatype put_result = Accepted | Refused exn | Stuck exn

record stdout_dev =
  put :: "str \<Rightarrow> str \<Rightarrow> bool \<Rightarrow> put_result"
  flush_at_exit :: "str \<Rightarrow> bool"

subsection \<open>Effects\<close>

datatype event =
    EnvGet str
  | StdinRead
  | Create client request
  | StdoutWrite str
  | StderrWrite str
  | Exit int

text \<open>
  \<open>StdoutWrite s\<close> is a \<open>print\<close> to standard output that returned, \<open>StderrWrite s\<close> one
  to standard error; \<open>Exit c\<close> is the end of the process with status \<open>c\<close>.

  \<open>print(s, end=e, file=sys.stderr)\<close> writes \<open>s\<close> followed by \<open>e\<close>.
\<close>

definition py_print :: "(str \<Rightarrow> event) \<Rightarrow> str \<Rightarrow> str \<Rightarrow> event list" where
  "py_print f s e = [f (s @ e)]"

text \<open>
  \<open>print(s, end=e, flush=fl)\<close> to standard output, after the text \<open>out\<close>: the write made
  if the call returns, or the exception raised and the text left in the buffer.
\<close>

definition print_stdout ::
  "stdout_dev \<Rightarrow> str \<Rightarrow> str \<Rightarrow> str \<Rightarrow> bool \<Rightarrow> event list \<times> (exn \<times> str) option" where
  "print_stdout dev out s e fl =
     (case put dev out (s @ e) fl of
        Accepted \<Rightarrow> ([StdoutWrite (s @ e)], None)
      | Refused x \<Rightarrow> ([], Some (x, []))
      | Stuck x \<Rightarrow> ([], Some (x, s @ e)))"

fun stdout_of :: "event list \<Rightarrow> str" where
  "stdout_of [] = []"
| "stdout_of (StdoutWrite s # tr) = s @ stdout_of tr"
| "stdout_of (_ # tr) = stdout_of tr"

text \<open>The texts written to standard error, one per \<open>print\<close> call.\<close>

fun stderr_writes :: "event list \<Rightarrow> str list" where
  "stderr_writes [] = []"
| "stderr_writes (StderrWrite s # tr) = s # stderr_writes tr"
| "stderr_writes (_ # tr) = stderr_writes tr"


text \<open>The network calls made, and the exit statuses the process ended with.\<close>

fun requests_of :: "event list \<Rightarrow> (client \<times> request) list" where
  "requests_of [] = []"
| "requests_of (Create c r # tr) = (c, r) # requests_of tr"
| "requests_of (_ # tr) = requests_of tr"

fun exits_of :: "event list \<Rightarrow> int list" where
  "exits_of [] = []"
| "exits_of (Exit c # tr) = c # exits_of tr"
| "exits_of (_ # tr) = exits_of tr"

section \<open>The script\<close>

definition KEY_NAME :: str where
  "KEY_NAME = ascii ''ZHIPUAI_API_KEY''"

text \<open>
  The three diagnostics. Their first word has two code points outside Latin-1
  (321 and 260), and the first message one more (347).
\<close>

definition MSG_NO_KEY :: str where
  "MSG_NO_KEY = [66, 321, 260, 68] @ ascii '': Brak zmiennej '' @ [347] @
     ascii ''rodowiskowej ZHIPUAI_API_KEY''"

definition MSG_EMPTY_PROMPT :: str where
  "MSG_EMPTY_PROMPT = [66, 321, 260, 68] @ ascii '': Pusty prompt''"

definition MSG_API_ERROR :: str where
  "MSG_API_ERROR = [66, 321, 260, 68] @ ascii '' API GLM: ''"

text \<open>\<open>xs[0]\<close>: the first element; on the empty list Python raises \<open>IndexError\<close>.\<close>

fun subscript0 :: "'a list \<Rightarrow> exn + 'a" where
  "subscript0 [] = Inl IndexError"
| "subscript0 (x # xs) = Inr x"

text \<open>
  Lines 35 to 39, the loop over the response, run after the text \<open>out\<close> was written and
  started with a value of the accumulator \<open>full_response\<close>. It returns the writes it
  made, the exception that ended it (if one did, with the text left in the buffer of
  standard output) and the final value of \<open>full_response\<close>. The exception comes from
  the stream, from \<open>chunk.choices[0]\<close> or from the \<open>print\<close> of line 38.
\<close>

fun for_loop ::
  "stdout_dev \<Rightarrow> chunk list \<Rightarrow> stream_end \<Rightarrow> str \<Rightarrow> str \<Rightarrow>
   event list \<times> (exn \<times> str) option \<times> str" where
  "for_loop dev [] StopIteration out full_response = ([], None, full_response)"
| "for_loop dev [] (StreamRaise e) out full_response = ([], Some (e, []), full_response)"
| "for_loop dev (c # rest) fin out full_response =
     (case subscript0 (choices c) of
        Inl e \<Rightarrow> ([], Some (e, []), full_response)
      | Inr ch \<Rightarrow>
          (let cont = content (delta ch) in
           if truthy cont
           then (case print_stdout dev out (the cont) [] True of
                   (ws, Some x) \<Rightarrow> (ws, Some x, full_response)
                 | (ws, None) \<Rightarrow>
                     (case for_loop dev rest fin (out @ the cont) (full_response @ the cont) of
                        (evs, r) \<Rightarrow> (ws @ evs, r)))
           else for_loop dev rest fin out full_response))"

definition the_request :: "str \<Rightarrow> request" where
  "the_request prompt =
     \<lparr>model = ascii ''glm-4-plus'',
      messages = [[(ascii ''role'', ascii ''user''), (ascii ''content'', prompt)]],
      stream = True\<rparr>"

text \<open>
  The body of the \<open>try\<close>, lines 25 to 41: the call, the loop from an empty accumulator,
  the final \<open>print()\<close>, which is not flushed. It returns its effects, the exception that
  left it, if any, and the text standard output still holds in its buffer.
\<close>

definition try_body ::
  "service \<Rightarrow> stdout_dev \<Rightarrow> client \<Rightarrow> str \<Rightarrow> event list \<times> exn option \<times> str" where
  "try_body svc dev cl prompt =
     (case svc cl (the_request prompt) of
        CreateRaise e \<Rightarrow> ([Create cl (the_request prompt)], Some e, [])
      | Response chunks fin \<Rightarrow>
          (case for_loop dev chunks fin [] [] of
             (evs, Some (e, held), full_response) \<Rightarrow>
               (Create cl (the_request prompt) # evs, Some e, held)
           | (evs, None, full_response) \<Rightarrow>
               (case print_stdout dev (stdout_of evs) [] newline False of
                  (ws, Some (e, held)) \<Rightarrow> (Create cl (the_request prompt) # evs @ ws, Some e, held)
                | (ws, None) \<Rightarrow> (Create cl (the_request prompt) # evs @ ws, None, newline))))"

text \<open>
  \<open>main()\<close>, lines 16 to 45. The second component is \<open>Some c\<close> when \<open>sys.exit(c)\<close> ended
  it and \<open>None\<close> when it returned; the third is the text left in the buffer of standard
  output.
\<close>

definition main ::
  "service \<Rightarrow> stdout_dev \<Rightarrow> client \<Rightarrow> str \<Rightarrow> event list \<times> int option \<times> str" where
  "main svc dev cl stdin =
     (let prompt = stdin in
      if strip prompt = []
      then (StdinRead # py_print StderrWrite MSG_EMPTY_PROMPT newline, Some 1, [])
      else
        (case try_body svc dev cl prompt of
           (evs, Some e, held) \<Rightarrow>
             (StdinRead # evs @ py_print StderrWrite (MSG_API_ERROR @ str_of e) newline,
              Some 1, held)
         | (evs, None, held) \<Rightarrow> (StdinRead # evs, None, held)))"

text \<open>
  The end of the process: the interpreter flushes standard output, and when text is held
  there and the flush fails the status becomes 120, whatever it was.
\<close>

definition finalize :: "stdout_dev \<Rightarrow> str \<Rightarrow> str \<Rightarrow> int \<Rightarrow> int" where
  "finalize dev out held c = (if held = [] \<or> flush_at_exit dev out then c else 120)"

text \<open>
  The module: lines 7 to 14, then the call of \<open>main()\<close> in line 48. A script that runs
  to its end exits with status 0.
\<close>

definition script :: "environ \<Rightarrow> stdout_dev \<Rightarrow> str \<Rightarrow> service \<Rightarrow> event list" where
  "script env dev stdin svc =
     (let api_key = env KEY_NAME in
      if \<not> truthy api_key
      then EnvGet KEY_NAME # py_print StderrWrite MSG_NO_KEY newline @ [Exit 1]
      else
        (case main svc dev (ZhipuAI (the api_key)) stdin of
           (evs, Some c, held) \<Rightarrow>
             EnvGet KEY_NAME # evs @ [Exit (finalize dev (stdout_of evs) held c)]
         | (evs, None, held) \<Rightarrow>
             EnvGet KEY_NAME # evs @ [Exit (finalize dev (stdout_of evs) held 0)]))"

section \<open>Vocabulary of the specification\<close>

text \<open>A prompt is blank when every code point of it is white space.\<close>

definition blank :: "str \<Rightarrow> bool" where
  "blank s = list_all isspace s"

text \<open>
  The textual delta of a chunk is the content of its first choice; a chunk without
  choices has none to offer.
\<close>

fun text_delta :: "chunk \<Rightarrow> str option" where
  "text_delta c = (case choices c of [] \<Rightarrow> None | ch # _ \<Rightarrow> content (delta ch))"

text \<open>
  What the specification says reaches standard output: the deltas that are present and
  not empty, in arrival order, concatenated.
\<close>

definition spec_deltas :: "chunk list \<Rightarrow> str list" where
  "spec_deltas cs = map the (filter (\<lambda>d. d \<noteq> None \<and> d \<noteq> Some []) (map text_delta cs))"

definition spec_relayed :: "chunk list \<Rightarrow> str" where
  "spec_relayed cs = concat (spec_deltas cs)"

text \<open>A chunk is well formed when it has a first choice to read.\<close>

definition well_formed :: "chunk list \<Rightarrow> bool" where
  "well_formed cs = list_all (\<lambda>c. choices c \<noteq> []) cs"

text \<open>
  Standard output takes the flushed writes \<open>ws\<close> one after the other, after the text
  \<open>out\<close>; and it takes them, the unflushed final newline and the flush at exit.
\<close>

fun takes :: "stdout_dev \<Rightarrow> str \<Rightarrow> str list \<Rightarrow> bool" where
  "takes dev out [] = True"
| "takes dev out (w # ws) = (put dev out w True = Accepted \<and> takes dev (out @ w) ws)"

definition takes_to_the_end :: "stdout_dev \<Rightarrow> str list \<Rightarrow> bool" where
  "takes_to_the_end dev ws \<longleftrightarrow>
     takes dev [] ws \<and> put dev (concat ws) newline False = Accepted \<and>
     flush_at_exit dev (concat ws @ newline)"

text \<open>
  The first error the service causes while a response is iterated: a chunk without
  choices, or the stream's own failure after its last chunk.
\<close>

fun relay_error :: "chunk list \<Rightarrow> stream_end \<Rightarrow> exn option" where
  "relay_error [] StopIteration = None"
| "relay_error [] (StreamRaise e) = Some e"
| "relay_error (c # cs) fin = (if choices c = [] then Some IndexError else relay_error cs fin)"

text \<open>The chunks consumed before that error.\<close>

fun consumed :: "chunk list \<Rightarrow> chunk list" where
  "consumed [] = []"
| "consumed (c # cs) = (if choices c = [] then [] else c # consumed cs)"

text \<open>The error of the service in a whole dispatch, from the call or from the relay.\<close>

fun service_error :: "create_result \<Rightarrow> exn option" where
  "service_error (CreateRaise e) = Some e"
| "service_error (Response cs fin) = relay_error cs fin"


text \<open>
  The texts the loop prints while it consumes a response, up to the service's error, and
  those of a whole dispatch (none when the call itself raises).
\<close>

fun loop_writes :: "chunk list \<Rightarrow> str list" where
  "loop_writes [] = []"
| "loop_writes (c # cs) =
     (case choices c of
        [] \<Rightarrow> []
      | ch # _ \<Rightarrow>
          (if truthy (content (delta ch)) then the (content (delta ch)) # loop_writes cs
           else loop_writes cs))"

fun service_writes :: "create_result \<Rightarrow> str list" where
  "service_writes (CreateRaise e) = []"
| "service_writes (Response cs fin) = loop_writes cs"

text \<open>
  The same on a standard output that may refuse: the writes the loop gets through after
  the text \<open>out\<close>, and the first failure of the relay, from the service or from a
  \<open>print\<close>, with the text that failure leaves in the buffer.
\<close>

fun relay_writes :: "stdout_dev \<Rightarrow> chunk list \<Rightarrow> str \<Rightarrow> str list" where
  "relay_writes dev [] out = []"
| "relay_writes dev (c # cs) out =
     (case choices c of
        [] \<Rightarrow> []
      | ch # _ \<Rightarrow>
          (case content (delta ch) of
             None \<Rightarrow> relay_writes dev cs out
           | Some s \<Rightarrow>
               if s = [] then relay_writes dev cs out
               else (case put dev out s True of
                       Accepted \<Rightarrow> s # relay_writes dev cs (out @ s)
                     | Refused x \<Rightarrow> []
                     | Stuck x \<Rightarrow> [])))"

fun relay_failure :: "stdout_dev \<Rightarrow> chunk list \<Rightarrow> stream_end \<Rightarrow> str \<Rightarrow> (exn \<times> str) option" where
  "relay_failure dev [] StopIteration out = None"
| "relay_failure dev [] (StreamRaise e) out = Some (e, [])"
| "relay_failure dev (c # cs) fin out =
     (case choices c of
        [] \<Rightarrow> Some (IndexError, [])
      | ch # _ \<Rightarrow>
          (case content (delta ch) of
             None \<Rightarrow> relay_failure dev cs fin out
           | Some s \<Rightarrow>
               if s = [] then relay_failure dev cs fin out
               else (case put dev out s True of
                       Accepted \<Rightarrow> relay_failure dev cs fin (out @ s)
                     | Refused x \<Rightarrow> Some (x, [])
                     | Stuck x \<Rightarrow> Some (x, s))))"

text \<open>
  The failure of a whole dispatch: of the call, of the relay, or of the final
  \<open>print()\<close>; and the writes of a whole dispatch, the final newline included when
  it is reached and taken.
\<close>

fun run_failure :: "stdout_dev \<Rightarrow> create_result \<Rightarrow> (exn \<times> str) option" where
  "run_failure dev (CreateRaise e) = Some (e, [])"
| "run_failure dev (Response cs fin) =
     (case relay_failure dev cs fin [] of
        Some x \<Rightarrow> Some x
      | None \<Rightarrow>
          (case put dev (concat (relay_writes dev cs [])) newline False of
             Accepted \<Rightarrow> None
           | Refused x \<Rightarrow> Some (x, [])
           | Stuck x \<Rightarrow> Some (x, newline)))"

fun run_writes :: "stdout_dev \<Rightarrow> create_result \<Rightarrow> str list" where
  "run_writes dev (CreateRaise e) = []"
| "run_writes dev (Response cs fin) =
     (case run_failure dev (Response cs fin) of
        Some x \<Rightarrow> relay_writes dev cs []
      | None \<Rightarrow> relay_writes dev cs [] @ [newline])"



text \<open>
  The stage of the run an effect belongs to: configuration load, prompt read, dispatch,
  streaming, failure report, end of the process.
\<close>

fun stage :: "event \<Rightarrow> nat" where
  "stage (EnvGet n) = 0"
| "stage StdinRead = 1"
| "stage (Create c r) = 2"
| "stage (StdoutWrite s) = 3"
| "stage (StderrWrite s) = 4"
| "stage (Exit c) = 5"

text \<open>
  Effects are in stage order when stages never go back and only streaming writes share
  a stage: every other operation happens at most once.
\<close>

definition in_stage_order :: "event list \<Rightarrow> bool" where
  "in_stage_order tr =
     sorted_wrt (\<lambda>a b. stage a < stage b \<or> (stage a = 3 \<and> stage b = 3)) tr"


section \<open>Sample runs\<close>

definition mk_chunk :: "str option \<Rightarrow> chunk" where
  "mk_chunk d = \<lparr>choices = [\<lparr>delta = \<lparr>content = d\<rparr>\<rparr>]\<rparr>"

definition env_ok :: environ where
  "env_ok = [KEY_NAME \<mapsto> ascii ''id.secret'']"

definition env_unset :: environ where
  "env_unset = Map.empty"



definition prompt_hi :: str where
  "prompt_hi = ascii '' hi'' @ newline"

definition prompt_blank :: str where
  "prompt_blank = [32, 9, 10]"

text \<open>
  A standard output that takes everything; one with the \<open>ascii\<close> codec, which cannot
  encode a code point above 127; and a full disk, where every flush fails.
\<close>

definition dev_ok :: stdout_dev where
  "dev_ok = \<lparr>put = (\<lambda>out s fl. Accepted), flush_at_exit = (\<lambda>out. True)\<rparr>"

definition dev_ascii :: stdout_dev where
  "dev_ascii =
     \<lparr>put = (\<lambda>out s fl. if list_all (\<lambda>c. c < 128) s then Accepted
                         else Refused (Exception (ascii ''ordinal not in range(128)''))),
      flush_at_exit = (\<lambda>out. True)\<rparr>"

definition dev_full :: stdout_dev where
  "dev_full =
     \<lparr>put = (\<lambda>out s fl. if fl then Stuck (Exception (ascii ''[Errno 28] No space left on device''))
                         else Accepted),
      flush_at_exit = (\<lambda>out. False)\<rparr>"

definition chunks_hello :: "chunk list" where
  "chunks_hello =
     map mk_chunk [Some (ascii ''Hel''), Some (ascii ''lo''), Some [], Some (ascii '' world'')]"

definition chunks_no_choice :: "chunk list" where
  "chunks_no_choice = [mk_chunk (Some (ascii ''Hel'')), \<lparr>choices = []\<rparr>, mk_chunk (Some (ascii ''lo''))]"

definition chunks_polish :: "chunk list" where
  "chunks_polish = [mk_chunk (Some (ascii ''Hel'')), mk_chunk (Some [321]), mk_chunk (Some (ascii ''lo''))]"

definition chunks_ab :: "chunk list" where
  "chunks_ab = [mk_chunk (Some (ascii ''ab''))]"

definition chunks_cd :: "chunk list" where
  "chunks_cd = [mk_chunk (Some (ascii ''cd''))]"

definition svc_hello :: service where
  "svc_hello cl r = Response chunks_hello StopIteration"

definition svc_no_choice :: service where
  "svc_no_choice cl r = Response chunks_no_choice StopIteration"

definition svc_polish :: service where
  "svc_polish cl r = Response chunks_polish StopIteration"



definition svc_breaks :: service where
  "svc_breaks cl r = Response [mk_chunk (Some (ascii ''Hel''))] (StreamRaise (Exception (ascii ''boom'')))"


definition svc_refuses :: service where
  "svc_refuses cl r = CreateRaise (Exception (ascii ''refused''))"


section \<open>Projections of a trace\<close>

lemma stdout_of_append: "stdout_of (xs @ ys) = stdout_of xs @ stdout_of ys"
  by (induction xs rule: stdout_of.induct) simp_all

lemma stderr_writes_append: "stderr_writes (xs @ ys) = stderr_writes xs @ stderr_writes ys"
  by (induction xs rule: stderr_writes.induct) simp_all

lemma requests_of_append: "requests_of (xs @ ys) = requests_of xs @ requests_of ys"
  by (induction xs rule: requests_of.induct) simp_all

lemma exits_of_append: "exits_of (xs @ ys) = exits_of xs @ exits_of ys"
  by (induction xs rule: exits_of.induct) simp_all

lemma stdout_of_writes: "stdout_of (map StdoutWrite ws) = concat ws"
  by (induction ws) simp_all

lemma stderr_writes_stdout: "stderr_writes (map StdoutWrite ws) = []"
  by (induction ws) simp_all

lemma requests_of_stdout: "requests_of (map StdoutWrite ws) = []"
  by (induction ws) simp_all

lemma exits_of_stdout: "exits_of (map StdoutWrite ws) = []"
  by (induction ws) simp_all

lemmas proj_simps =
  stdout_of_append stderr_writes_append requests_of_append exits_of_append
  stdout_of_writes stderr_writes_stdout requests_of_stdout exits_of_stdout

section \<open>The prompt test\<close>

lemma dropWhile_all_iff: "(\<forall>x\<in>set (dropWhile P xs). P x) \<longleftrightarrow> (\<forall>x\<in>set xs. P x)"
  by (induction xs) auto

text \<open>\<open>not prompt.strip()\<close> holds exactly for the blank prompts.\<close>

lemma strip_empty_iff: "strip s = [] \<longleftrightarrow> blank s"
  by (simp add: strip_def blank_def list_all_iff dropWhile_all_iff)

lemma truthy_iff: "truthy v \<longleftrightarrow> (\<exists>k. v = Some k \<and> k \<noteq> [])"
  by (cases v) simp_all


section \<open>The loop\<close>

text \<open>
  The loop in closed form: what it writes, how it ends and what it leaves in
  \<open>full_response\<close>.
\<close>

lemma for_loop_eq:
  "for_loop dev cs fin out a =
     (map StdoutWrite (relay_writes dev cs out), relay_failure dev cs fin out,
      a @ concat (relay_writes dev cs out))"
proof (induction cs arbitrary: out a)
  case Nil
  show ?case by (cases fin) simp_all
next
  case (Cons c cs)
  show ?case
  proof (cases "choices c")
    case Nil
    then show ?thesis by simp
  next
    case (Cons ch chs)
    show ?thesis
    proof (cases "content (delta ch)")
      case None
      with Cons show ?thesis by (simp add: Cons.IH)
    next
      case (Some s)
      show ?thesis
      proof (cases "s = []")
        case True
        with Some Cons show ?thesis by (simp add: Cons.IH)
      next
        case False
        with Some Cons show ?thesis
          by (cases "put dev out s True") (simp_all add: Let_def print_stdout_def Cons.IH)
      qed
    qed
  qed
qed

lemma loop_writes_deltas: "loop_writes cs = spec_deltas (consumed cs)"
proof (induction cs)
  case Nil
  show ?case by (simp add: spec_deltas_def)
next
  case (Cons c cs)
  show ?case
  proof (cases "choices c")
    case Nil
    then show ?thesis by (simp add: spec_deltas_def)
  next
    case (Cons ch chs)
    with Cons.IH show ?thesis
      by (cases "content (delta ch)") (simp_all add: spec_deltas_def)
  qed
qed

lemma concat_loop_writes: "concat (loop_writes cs) = spec_relayed (consumed cs)"
  by (simp add: loop_writes_deltas spec_relayed_def)


lemma consumed_well_formed: "well_formed cs \<Longrightarrow> consumed cs = cs"
  by (induction cs) (simp_all add: well_formed_def)

lemma relay_error_well_formed:
  "well_formed cs \<Longrightarrow>
   relay_error cs fin = (case fin of StopIteration \<Rightarrow> None | StreamRaise e \<Rightarrow> Some e)"
  by (induction cs) (simp_all add: well_formed_def split: stream_end.splits)

text \<open>On a standard output that takes the loop's writes, the relay is the service's.\<close>

lemma relay_writes_taken:
  "takes dev out (loop_writes cs) \<Longrightarrow> relay_writes dev cs out = loop_writes cs"
proof (induction cs arbitrary: out)
  case Nil
  show ?case by simp
next
  case (Cons c cs)
  show ?case
  proof (cases "choices c")
    case Nil
    then show ?thesis by simp
  next
    case (Cons ch chs)
    with Cons.prems Cons.IH show ?thesis
      by (cases "content (delta ch)") (auto split: if_splits)
  qed
qed

lemma relay_failure_taken:
  "takes dev out (loop_writes cs) \<Longrightarrow>
   relay_failure dev cs fin out = map_option (\<lambda>e. (e, [])) (relay_error cs fin)"
proof (induction cs arbitrary: out)
  case Nil
  show ?case by (cases fin) simp_all
next
  case (Cons c cs)
  show ?case
  proof (cases "choices c")
    case Nil
    then show ?thesis by simp
  next
    case (Cons ch chs)
    with Cons.prems Cons.IH show ?thesis
      by (cases "content (delta ch)") (auto split: if_splits)
  qed
qed

section \<open>The runs\<close>

lemma try_body_eq:
  "try_body svc dev cl p =
     (Create cl (the_request p) # map StdoutWrite (run_writes dev (svc cl (the_request p))),
      map_option fst (run_failure dev (svc cl (the_request p))),
      (case run_failure dev (svc cl (the_request p)) of Some (e, held) \<Rightarrow> held | None \<Rightarrow> newline))"
proof (cases "svc cl (the_request p)")
  case (CreateRaise e)
  then show ?thesis by (simp add: try_body_def)
next
  case (Response cs fin)
  show ?thesis
  proof (cases "relay_failure dev cs fin []")
    case (Some x)
    with Response show ?thesis
      by (cases x) (simp add: try_body_def for_loop_eq)
  next
    case None
    with Response show ?thesis
      by (cases "put dev (concat (relay_writes dev cs [])) newline False")
        (simp_all add: try_body_def for_loop_eq print_stdout_def stdout_of_writes)
  qed
qed

lemma script_no_key:
  assumes "\<not> truthy (env KEY_NAME)"
  shows "script env dev inp svc = [EnvGet KEY_NAME, StderrWrite (MSG_NO_KEY @ newline), Exit 1]"
  using assms by (simp add: script_def py_print_def)

lemma script_blank:
  assumes "truthy (env KEY_NAME)" and "blank inp"
  shows "script env dev inp svc =
           [EnvGet KEY_NAME, StdinRead, StderrWrite (MSG_EMPTY_PROMPT @ newline), Exit 1]"
  using assms by (simp add: script_def main_def py_print_def strip_empty_iff finalize_def)

text \<open>Every run that reaches dispatch, on any standard output.\<close>

lemma script_dispatched:
  assumes "env KEY_NAME = Some k" and "k \<noteq> []" and "\<not> blank inp"
  shows "script env dev inp svc =
           [EnvGet KEY_NAME, StdinRead, Create (ZhipuAI k) (the_request inp)] @
           map StdoutWrite (run_writes dev (svc (ZhipuAI k) (the_request inp))) @
           (case run_failure dev (svc (ZhipuAI k) (the_request inp)) of
              Some (e, held) \<Rightarrow>
                [StderrWrite (MSG_API_ERROR @ str_of e @ newline),
                 Exit (finalize dev (concat (run_writes dev (svc (ZhipuAI k) (the_request inp))))
                         held 1)]
            | None \<Rightarrow>
                [Exit (finalize dev (concat (run_writes dev (svc (ZhipuAI k) (the_request inp))))
                         newline 0)])"
proof (cases "run_failure dev (svc (ZhipuAI k) (the_request inp))")
  case None
  with assms show ?thesis
    by (simp add: script_def main_def try_body_eq py_print_def strip_empty_iff proj_simps)
next
  case (Some x)
  with assms show ?thesis
    by (cases x)
      (simp add: script_def main_def try_body_eq py_print_def strip_empty_iff proj_simps)
qed

text \<open>The two runs in which standard output takes what it is given.\<close>

lemma run_failure_taken:
  assumes "service_error r = Some e" and "takes dev [] (service_writes r)"
  shows "run_failure dev r = Some (e, [])" and "run_writes dev r = service_writes r"
  using assms by (cases r; simp add: relay_failure_taken relay_writes_taken)+

lemma run_success_taken:
  assumes "service_error r = None" and "takes_to_the_end dev (service_writes r)"
  shows "run_failure dev r = None" and "run_writes dev r = service_writes r @ [newline]"
  using assms
  by (cases r; simp add: relay_failure_taken relay_writes_taken takes_to_the_end_def)+

lemma script_failed:
  assumes "env KEY_NAME = Some k" and "k \<noteq> []" and "\<not> blank inp"
    and "service_error (svc (ZhipuAI k) (the_request inp)) = Some e"
    and "takes dev [] (service_writes (svc (ZhipuAI k) (the_request inp)))"
  shows "script env dev inp svc =
           [EnvGet KEY_NAME, StdinRead, Create (ZhipuAI k) (the_request inp)] @
           map StdoutWrite (service_writes (svc (ZhipuAI k) (the_request inp))) @
           [StderrWrite (MSG_API_ERROR @ str_of e @ newline), Exit 1]"
  using script_dispatched [of env k inp dev svc, OF assms(1-3)]
    run_failure_taken [OF assms(4,5)]
  by (simp add: finalize_def)

lemma script_succeeded:
  assumes "env KEY_NAME = Some k" and "k \<noteq> []" and "\<not> blank inp"
    and "service_error (svc (ZhipuAI k) (the_request inp)) = None"
    and "takes_to_the_end dev (service_writes (svc (ZhipuAI k) (the_request inp)))"
  shows "script env dev inp svc =
           [EnvGet KEY_NAME, StdinRead, Create (ZhipuAI k) (the_request inp)] @
           map StdoutWrite (service_writes (svc (ZhipuAI k) (the_request inp))) @
           [StdoutWrite newline, Exit 0]"
  using script_dispatched [of env k inp dev svc, OF assms(1-3)]
    run_success_taken [OF assms(4,5)] assms(5)
  by (simp add: finalize_def takes_to_the_end_def)

text \<open>
  A chunk without choices makes \<open>chunk.choices[0]\<close> raise inside the \<open>try\<close>: the run
  then fails as it does for any other error of the relay.
\<close>

lemma relay_error_no_choice:
  "well_formed pre \<Longrightarrow> relay_error (pre @ \<lparr>choices = []\<rparr> # post) fin = Some IndexError"
  by (induction pre) (simp_all add: well_formed_def)

lemma consumed_no_choice:
  "well_formed pre \<Longrightarrow> consumed (pre @ \<lparr>choices = []\<rparr> # post) = pre"
  by (induction pre) (simp_all add: well_formed_def)

lemma chunk_without_choice:
  assumes "env KEY_NAME = Some k" and "k \<noteq> []" and "\<not> blank inp"
    and "svc (ZhipuAI k) (the_request inp) = Response (pre @ \<lparr>choices = []\<rparr> # post) fin"
    and "well_formed pre" and "takes dev [] (spec_deltas pre)"
  shows "stdout_of (script env dev inp svc) = spec_relayed pre \<and>
         stderr_writes (script env dev inp svc) =
           [MSG_API_ERROR @ ascii ''list index out of range'' @ newline] \<and>
         exits_of (script env dev inp svc) = [1]"
proof -
  have err: "service_error (svc (ZhipuAI k) (the_request inp)) = Some IndexError"
    using assms(4,5) by (simp add: relay_error_no_choice)
  have tk: "takes dev [] (service_writes (svc (ZhipuAI k) (the_request inp)))"
    using assms(4-6) by (simp add: loop_writes_deltas consumed_no_choice)
  show ?thesis
    using assms(4,5) script_failed [of env k inp svc IndexError dev, OF assms(1-3) err tk]
    by (simp add: proj_simps concat_loop_writes consumed_no_choice IndexError_def)
qed

section \<open>Outcomes and shapes of a run\<close>




lemma finalize_cases: "finalize dev out held c = c \<or> finalize dev out held c = 120"
  by (simp add: finalize_def)

lemma finalize_flushed: "flush_at_exit dev out \<Longrightarrow> finalize dev out held c = c"
  by (simp add: finalize_def)


lemma script_shape:
  "(\<not> truthy (env KEY_NAME) \<and>
      script env dev inp svc = [EnvGet KEY_NAME, StderrWrite (MSG_NO_KEY @ newline), Exit 1]) \<or>
   (truthy (env KEY_NAME) \<and> blank inp \<and>
      script env dev inp svc =
        [EnvGet KEY_NAME, StdinRead, StderrWrite (MSG_EMPTY_PROMPT @ newline), Exit 1]) \<or>
   (truthy (env KEY_NAME) \<and> \<not> blank inp \<and>
      (\<exists>cl ws m held. script env dev inp svc =
         [EnvGet KEY_NAME, StdinRead, Create cl (the_request inp)] @ map StdoutWrite ws @
         [StderrWrite m, Exit (finalize dev (concat ws) held 1)])) \<or>
   (truthy (env KEY_NAME) \<and> \<not> blank inp \<and>
      (\<exists>cl ws. script env dev inp svc =
         [EnvGet KEY_NAME, StdinRead, Create cl (the_request inp)] @ map StdoutWrite ws @
         [Exit (finalize dev (concat ws) newline 0)]))"
proof (cases "truthy (env KEY_NAME)")
  case False
  then show ?thesis by (simp add: script_no_key)
next
  case True
  then obtain k where k: "env KEY_NAME = Some k" "k \<noteq> []"
    by (auto simp: truthy_iff)
  show ?thesis
  proof (cases "blank inp")
    case True
    with \<open>truthy (env KEY_NAME)\<close> show ?thesis by (simp add: script_blank)
  next
    case False
    show ?thesis
    proof (cases "run_failure dev (svc (ZhipuAI k) (the_request inp))")
      case None
      with script_dispatched [of env k inp dev svc, OF k False] True False
      show ?thesis by auto
    next
      case (Some x)
      obtain e held where x: "x = (e, held)" by (cases x)
      with Some script_dispatched [of env k inp dev svc, OF k False] True False
      show ?thesis by auto
    qed
  qed
qed

lemma in_stage_order_run:
  "in_stage_order ([EnvGet n, StdinRead, Create cl r] @ map StdoutWrite ws @ [Exit c])"
  by (auto simp: in_stage_order_def sorted_wrt_append sorted_wrt_map)

lemma in_stage_order_failed_run:
  "in_stage_order
     ([EnvGet n, StdinRead, Create cl r] @ map StdoutWrite ws @ [StderrWrite m, Exit c])"
  by (auto simp: in_stage_order_def sorted_wrt_append sorted_wrt_map)

lemma no_report:
  assumes "stderr_writes tr = []"
  shows "tr \<noteq> pre @ StderrWrite m # post"
  using assms by (auto simp: proj_simps)

lemma report_is_last:
  assumes "stderr_writes A = []" and "A @ [StderrWrite x, Exit c] = pre @ StderrWrite m # post"
  shows "post = [Exit c]"
  using assms
proof (induction A arbitrary: pre)
  case Nil
  then show ?case
    by (cases pre) (auto simp: Cons_eq_append_conv)
next
  case (Cons a A)
  show ?case
  proof (cases pre)
    case Nil
    with Cons.prems show ?thesis by auto
  next
    case (Cons p pre')
    with Cons.prems Cons.IH [of pre'] show ?thesis
      by (cases a) auto
  qed
qed

section \<open>Facts about the sample runs\<close>

lemma env_ok_key: "env_ok KEY_NAME = Some (ascii ''id.secret'')"
  by (simp add: env_ok_def)

lemma key_not_empty: "ascii ''id.secret'' \<noteq> []"
  by (simp add: ascii_def)

lemma prompt_hi_not_blank: "\<not> blank prompt_hi"
  by (simp add: blank_def prompt_hi_def ascii_def isspace_def)

lemma prompt_blank_blank: "blank prompt_blank"
  by (simp add: blank_def prompt_blank_def isspace_def)

lemma chunks_hello_well_formed: "well_formed chunks_hello"
  by (simp add: well_formed_def chunks_hello_def mk_chunk_def)

lemma takes_dev_ok: "takes dev_ok out ws"
  by (induction ws arbitrary: out) (simp_all add: dev_ok_def)

lemma takes_to_the_end_dev_ok: "takes_to_the_end dev_ok ws"
  using takes_dev_ok [of "[]" ws] by (simp add: takes_to_the_end_def) (simp add: dev_ok_def)

section \<open>Further facts about the loop and the messages\<close>


text \<open>The loop over a longer response starts as the loop over its beginning.\<close>

lemma for_loop_append:
  "for_loop dev (pre @ post) fin out a =
     (case for_loop dev pre StopIteration out a of
        (evs, Some x, acc) \<Rightarrow> (evs, Some x, acc)
      | (evs, None, acc) \<Rightarrow>
          (case for_loop dev post fin (out @ stdout_of evs) acc of
             (evs', r) \<Rightarrow> (evs @ evs', r)))"
proof (induction pre arbitrary: out a)
  case Nil
  show ?case by (simp split: prod.splits)
next
  case (Cons c pre)
  show ?case
  proof (cases "choices c")
    case Nil
    then show ?thesis by simp
  next
    case (Cons ch chs)
    show ?thesis
    proof (cases "content (delta ch)")
      case None
      with Cons show ?thesis by (simp add: Cons.IH)
    next
      case (Some s)
      show ?thesis
      proof (cases "s = []")
        case True
        with Some Cons show ?thesis by (simp add: Cons.IH)
      next
        case False
        with Some Cons show ?thesis
          by (cases "put dev out s True")
            (simp_all add: Let_def print_stdout_def Cons.IH split: prod.splits option.splits)
      qed
    qed
  qed
qed

section \<open>Claims\<close>

text \<open>
  C1, as amended. With a credential that is set and not empty and a prompt that is not
  blank, when the call returns a response that yields the chunks \<open>cs\<close> and then stops,
  every chunk has a first choice to read, and standard output takes every write of the
  run and the flush at exit, standard output is the concatenation of the deltas that
  are present and not empty, in order, followed by one newline. For the deltas \<open>Hel\<close>,
  \<open>lo\<close>, the empty string and \<open> world\<close> it is \<open>Hello world\<close> and a newline.
\<close>

theorem relay_output:
  assumes "env KEY_NAME = Some k" and "k \<noteq> []" and "\<not> blank inp"
    and "svc (ZhipuAI k) (the_request inp) = Response cs StopIteration"
    and "well_formed cs" and "takes_to_the_end dev (spec_deltas cs)"
  shows "stdout_of (script env dev inp svc) = spec_relayed cs @ newline \<and>
         (map text_delta cs =
            [Some (ascii ''Hel''), Some (ascii ''lo''), Some [], Some (ascii '' world'')] \<longrightarrow>
          stdout_of (script env dev inp svc) = ascii ''Hello world'' @ newline)"
proof -
  have err: "service_error (svc (ZhipuAI k) (the_request inp)) = None"
    using assms(4,5) by (simp add: relay_error_well_formed)
  have tk: "takes_to_the_end dev (service_writes (svc (ZhipuAI k) (the_request inp)))"
    using assms(4-6) by (simp add: loop_writes_deltas consumed_well_formed)
  have out: "stdout_of (script env dev inp svc) = spec_relayed cs @ newline"
    using assms(4,5) script_succeeded [of env k inp svc dev, OF assms(1-3) err tk]
    by (simp add: proj_simps concat_loop_writes consumed_well_formed)
  have "spec_relayed cs = ascii ''Hello world''"
    if "map text_delta cs =
          [Some (ascii ''Hel''), Some (ascii ''lo''), Some [], Some (ascii '' world'')]"
    using that unfolding spec_relayed_def spec_deltas_def by (simp add: ascii_def)
  with out show ?thesis by simp
qed

theorem relay_output_witness:
  "env_ok KEY_NAME = Some (ascii ''id.secret'') \<and> \<not> blank prompt_hi \<and>
   well_formed chunks_hello \<and> takes_to_the_end dev_ok (spec_deltas chunks_hello) \<and>
   stdout_of (script env_ok dev_ok prompt_hi svc_hello) = ascii ''Hello world'' @ newline"
proof -
  have 4: "svc_hello (ZhipuAI (ascii ''id.secret'')) (the_request prompt_hi) =
             Response chunks_hello StopIteration"
    by (simp add: svc_hello_def)
  have 6: "map text_delta chunks_hello =
             [Some (ascii ''Hel''), Some (ascii ''lo''), Some [], Some (ascii '' world'')]"
    by (simp add: chunks_hello_def mk_chunk_def)
  from relay_output [of env_ok "ascii ''id.secret''" prompt_hi svc_hello chunks_hello dev_ok,
      OF env_ok_key key_not_empty prompt_hi_not_blank 4 chunks_hello_well_formed
      takes_to_the_end_dev_ok]
    env_ok_key prompt_hi_not_blank chunks_hello_well_formed
    takes_to_the_end_dev_ok [of "spec_deltas chunks_hello"] 6
  show ?thesis by blast
qed

text \<open>
  The claim without the two added conditions fails. A stream that ends without error but
  holds a chunk without choices after \<open>Hel\<close> makes line 36 raise: standard output stops
  at \<open>Hel\<close>, without the later delta and without the newline, and the run ends in the
  handler with status 1. So does a stream whose second delta standard output cannot
  encode: the \<open>print\<close> of line 38 raises inside the \<open>try\<close>.
\<close>

theorem relay_output_counterexample:
  "stdout_of (script env_ok dev_ok prompt_hi svc_no_choice) = ascii ''Hel'' \<and>
   spec_relayed chunks_no_choice @ newline = ascii ''Hello'' @ newline \<and>
   stdout_of (script env_ok dev_ok prompt_hi svc_no_choice) \<noteq>
     spec_relayed chunks_no_choice @ newline \<and>
   stderr_writes (script env_ok dev_ok prompt_hi svc_no_choice) =
     [MSG_API_ERROR @ ascii ''list index out of range'' @ newline] \<and>
   exits_of (script env_ok dev_ok prompt_hi svc_no_choice) = [1] \<and>
   stdout_of (script env_ok dev_ascii prompt_hi svc_polish) = ascii ''Hel'' \<and>
   spec_relayed chunks_polish @ newline = ascii ''Hel'' @ [321] @ ascii ''lo'' @ newline \<and>
   exits_of (script env_ok dev_ascii prompt_hi svc_polish) = [1]"
proof -
  have 1: "run_failure dev_ok (svc_no_choice (ZhipuAI (ascii ''id.secret'')) (the_request prompt_hi)) =
             Some (IndexError, [])"
    by (simp add: svc_no_choice_def chunks_no_choice_def mk_chunk_def dev_ok_def ascii_def)
  have 2: "run_writes dev_ok (svc_no_choice (ZhipuAI (ascii ''id.secret'')) (the_request prompt_hi)) =
             [ascii ''Hel'']"
    by (simp add: svc_no_choice_def chunks_no_choice_def mk_chunk_def dev_ok_def ascii_def)
  have 3: "run_failure dev_ascii (svc_polish (ZhipuAI (ascii ''id.secret'')) (the_request prompt_hi)) =
             Some (Exception (ascii ''ordinal not in range(128)''), [])"
    by (simp add: svc_polish_def chunks_polish_def mk_chunk_def dev_ascii_def ascii_def)
  have 4: "run_writes dev_ascii (svc_polish (ZhipuAI (ascii ''id.secret'')) (the_request prompt_hi)) =
             [ascii ''Hel'']"
    by (simp add: svc_polish_def chunks_polish_def mk_chunk_def dev_ascii_def ascii_def)
  have 5: "spec_relayed chunks_no_choice = ascii ''Hello''"
    by (simp add: spec_relayed_def spec_deltas_def chunks_no_choice_def mk_chunk_def ascii_def)
  have 6: "spec_relayed chunks_polish = ascii ''Hel'' @ [321] @ ascii ''lo''"
    by (simp add: spec_relayed_def spec_deltas_def chunks_polish_def mk_chunk_def ascii_def)
  show ?thesis
    using script_dispatched [of env_ok "ascii ''id.secret''" prompt_hi dev_ok svc_no_choice,
        OF env_ok_key key_not_empty prompt_hi_not_blank]
      script_dispatched [of env_ok "ascii ''id.secret''" prompt_hi dev_ascii svc_polish,
        OF env_ok_key key_not_empty prompt_hi_not_blank]
    by (simp add: 1 2 3 4 5 6 proj_simps finalize_def IndexError_def) (simp add: ascii_def)
qed








text \<open>
  C5. A run that reaches dispatch sends exactly one request: model \<open>glm-4-plus\<close>,
  streaming on, and a single message of role \<open>user\<close> whose content is the text of
  standard input as read, not stripped.
\<close>

theorem single_request:
  assumes "env KEY_NAME = Some k" and "k \<noteq> []" and "\<not> blank inp"
  shows "requests_of (script env dev inp svc) =
           [(ZhipuAI k,
             \<lparr>model = ascii ''glm-4-plus'',
              messages = [[(ascii ''role'', ascii ''user''), (ascii ''content'', inp)]],
              stream = True\<rparr>)]"
proof (cases "run_failure dev (svc (ZhipuAI k) (the_request inp))")
  case None
  with script_dispatched [of env k inp dev svc, OF assms]
  show ?thesis by (simp add: proj_simps the_request_def)
next
  case (Some x)
  with script_dispatched [of env k inp dev svc, OF assms]
  show ?thesis by (cases x) (simp add: proj_simps the_request_def)
qed

theorem single_request_witness:
  "requests_of (script env_ok dev_full prompt_hi svc_refuses) =
     [(ZhipuAI (ascii ''id.secret''),
       \<lparr>model = ascii ''glm-4-plus'',
        messages = [[(ascii ''role'', ascii ''user''), (ascii ''content'', ascii '' hi'' @ newline)]],
        stream = True\<rparr>)]"
  using single_request [of env_ok "ascii ''id.secret''" prompt_hi dev_full svc_refuses,
      OF env_ok_key key_not_empty prompt_hi_not_blank]
  by (simp add: prompt_hi_def)






text \<open>
  C8. In every run the effects are in stage order (configuration load, prompt read,
  dispatch, streaming, failure report, exit), each of them but the streaming writes at
  most once; the run ends with its only exit; whatever follows a failure report is the
  exit and nothing else, with status 1, or 120 when the flush at exit fails; without a
  credential standard input is not read and no request is sent; with a blank prompt no
  request is sent; a request is only sent after the prompt was read and text is only
  relayed after a request was sent.
\<close>

theorem stage_order:
  "in_stage_order (script env dev inp svc) \<and>
   (\<exists>pre c. script env dev inp svc = pre @ [Exit c] \<and> exits_of pre = []) \<and>
   (\<forall>pre m post. script env dev inp svc = pre @ StderrWrite m # post \<longrightarrow>
      (post = [Exit 1] \<or> post = [Exit 120]) \<and>
      ((\<forall>out. flush_at_exit dev out) \<longrightarrow> post = [Exit 1])) \<and>
   (env KEY_NAME = None \<or> env KEY_NAME = Some [] \<longrightarrow>
      StdinRead \<notin> set (script env dev inp svc) \<and> requests_of (script env dev inp svc) = []) \<and>
   (blank inp \<longrightarrow> requests_of (script env dev inp svc) = []) \<and>
   (requests_of (script env dev inp svc) \<noteq> [] \<longrightarrow> StdinRead \<in> set (script env dev inp svc)) \<and>
   (stdout_of (script env dev inp svc) \<noteq> [] \<longrightarrow> requests_of (script env dev inp svc) \<noteq> [])"
  (is "?order \<and> ?ends \<and> ?terminal \<and> ?nokey \<and> ?blank \<and> ?read \<and> ?sent")
proof -
  let ?tr = "script env dev inp svc"
  consider (nokey) "\<not> truthy (env KEY_NAME)"
      "?tr = [EnvGet KEY_NAME, StderrWrite (MSG_NO_KEY @ newline), Exit 1]"
    | (blank) "truthy (env KEY_NAME)" "blank inp"
      "?tr = [EnvGet KEY_NAME, StdinRead, StderrWrite (MSG_EMPTY_PROMPT @ newline), Exit 1]"
    | (failed) cl ws m held where "truthy (env KEY_NAME)" "\<not> blank inp"
      "?tr = [EnvGet KEY_NAME, StdinRead, Create cl (the_request inp)] @ map StdoutWrite ws @
             [StderrWrite m, Exit (finalize dev (concat ws) held 1)]"
    | (succeeded) cl ws where "truthy (env KEY_NAME)" "\<not> blank inp"
      "?tr = [EnvGet KEY_NAME, StdinRead, Create cl (the_request inp)] @ map StdoutWrite ws @
             [Exit (finalize dev (concat ws) newline 0)]"
    using script_shape [of env dev inp svc] by blast
  then show ?thesis
  proof cases
    case nokey
    have ?order using nokey(2) by (simp add: in_stage_order_def)
    moreover have ?ends
      using nokey(2)
      by (intro exI [of _ "[EnvGet KEY_NAME, StderrWrite (MSG_NO_KEY @ newline)]"] exI [of _ 1])
        simp
    moreover have ?terminal
      using nokey(2) report_is_last [of "[EnvGet KEY_NAME]" "MSG_NO_KEY @ newline" 1] by simp
    moreover have ?nokey using nokey(2) by simp
    moreover have ?blank using nokey(2) by simp
    moreover have ?read using nokey(2) by simp
    moreover have ?sent using nokey(2) by simp
    ultimately show ?thesis by blast
  next
    case blank
    have ?order using blank(3) by (simp add: in_stage_order_def)
    moreover have ?ends
      using blank(3)
      by (intro exI [of _ "[EnvGet KEY_NAME, StdinRead, StderrWrite (MSG_EMPTY_PROMPT @ newline)]"]
          exI [of _ 1]) simp
    moreover have ?terminal
      using blank(3) report_is_last [of "[EnvGet KEY_NAME, StdinRead]" "MSG_EMPTY_PROMPT @ newline" 1]
      by simp
    moreover have ?nokey using blank(1) by auto
    moreover have ?blank using blank(3) by simp
    moreover have ?read using blank(3) by simp
    moreover have ?sent using blank(3) by simp
    ultimately show ?thesis by blast
  next
    case failed
    let ?A = "[EnvGet KEY_NAME, StdinRead, Create cl (the_request inp)] @ map StdoutWrite ws"
    let ?c = "finalize dev (concat ws) held 1"
    have tr: "?tr = ?A @ [StderrWrite m, Exit ?c]" using failed(3) by simp
    have c: "?c = 1 \<or> ?c = 120" by (rule finalize_cases)
    have c1: "?c = 1" if "\<forall>out. flush_at_exit dev out"
      using that by (simp add: finalize_flushed)
    have ?order using failed(3) in_stage_order_failed_run by simp
    moreover have ?ends
      unfolding tr by (intro exI [of _ "?A @ [StderrWrite m]"] exI [of _ ?c]) (simp add: proj_simps)
    moreover have ?terminal
    proof (intro allI impI)
      fix pre m' post
      assume "?tr = pre @ StderrWrite m' # post"
      with tr have "?A @ [StderrWrite m, Exit ?c] = pre @ StderrWrite m' # post" by simp
      then have "post = [Exit ?c]"
        by (rule report_is_last [rotated]) (simp add: proj_simps)
      with c c1 show "(post = [Exit 1] \<or> post = [Exit 120]) \<and>
          ((\<forall>out. flush_at_exit dev out) \<longrightarrow> post = [Exit 1])"
        by auto
    qed
    moreover have ?nokey using failed(1) by auto
    moreover have ?blank using failed(2) by simp
    moreover have ?read unfolding tr by simp
    moreover have ?sent unfolding tr by (simp add: proj_simps)
    ultimately show ?thesis by blast
  next
    case succeeded
    let ?c = "finalize dev (concat ws) newline 0"
    have ?order using succeeded(3) in_stage_order_run by simp
    moreover have ?ends
      using succeeded(3)
      by (intro exI [of _ "[EnvGet KEY_NAME, StdinRead, Create cl (the_request inp)] @
            map StdoutWrite ws"] exI [of _ ?c]) (simp add: proj_simps)
    moreover have ?terminal
      using succeeded(3) no_report [of ?tr] by (simp add: proj_simps)
    moreover have ?nokey using succeeded(1) by auto
    moreover have ?blank using succeeded(2) by simp
    moreover have ?read using succeeded(3) by simp
    moreover have ?sent using succeeded(3) by (simp add: proj_simps)
    ultimately show ?thesis by blast
  qed
qed

theorem stage_order_witness:
  "in_stage_order (script env_ok dev_ok prompt_hi svc_breaks) \<and>
   script env_ok dev_ok prompt_hi svc_breaks =
     [EnvGet KEY_NAME, StdinRead, Create (ZhipuAI (ascii ''id.secret'')) (the_request prompt_hi),
      StdoutWrite (ascii ''Hel'')] @
     StderrWrite (MSG_API_ERROR @ ascii ''boom'' @ newline) # [Exit 1] \<and>
   StdinRead \<notin> set (script env_unset dev_ok prompt_hi svc_hello) \<and>
   requests_of (script env_unset dev_ok prompt_hi svc_hello) = [] \<and>
   requests_of (script env_ok dev_ok prompt_blank svc_hello) = [] \<and>
   StdinRead \<in> set (script env_ok dev_ok prompt_hi svc_hello) \<and>
   requests_of (script env_ok dev_ok prompt_hi svc_hello) \<noteq> []"
proof -
  have 1: "service_error (svc_breaks (ZhipuAI (ascii ''id.secret'')) (the_request prompt_hi)) =
             Some (Exception (ascii ''boom''))"
    by (simp add: svc_breaks_def mk_chunk_def)
  have 2: "script env_ok dev_ok prompt_hi svc_breaks =
             [EnvGet KEY_NAME, StdinRead,
              Create (ZhipuAI (ascii ''id.secret'')) (the_request prompt_hi),
              StdoutWrite (ascii ''Hel'')] @
             StderrWrite (MSG_API_ERROR @ ascii ''boom'' @ newline) # [Exit 1]"
    using script_failed [of env_ok "ascii ''id.secret''" prompt_hi svc_breaks
        "Exception (ascii ''boom'')" dev_ok, OF env_ok_key key_not_empty prompt_hi_not_blank 1
        takes_dev_ok]
    by (simp add: svc_breaks_def mk_chunk_def ascii_def)
  have 3: "env_unset KEY_NAME = None \<or> env_unset KEY_NAME = Some []"
    by (simp add: env_unset_def)
  have 4: "service_error (svc_hello (ZhipuAI (ascii ''id.secret'')) (the_request prompt_hi)) = None"
    using chunks_hello_well_formed by (simp add: svc_hello_def relay_error_well_formed)
  have 5: "stdout_of (script env_ok dev_ok prompt_hi svc_hello) \<noteq> []"
    using script_succeeded [of env_ok "ascii ''id.secret''" prompt_hi svc_hello dev_ok,
        OF env_ok_key key_not_empty prompt_hi_not_blank 4 takes_to_the_end_dev_ok]
    by (simp add: proj_simps newline_def)
  from stage_order [of env_ok dev_ok prompt_hi svc_breaks]
    stage_order [of env_unset dev_ok prompt_hi svc_hello]
    stage_order [of env_ok dev_ok prompt_blank svc_hello]
    stage_order [of env_ok dev_ok prompt_hi svc_hello]
    2 3 5 prompt_blank_blank
  show ?thesis by blast
qed

text \<open>
  C9, as amended. The accumulator \<open>full_response\<close> has no effect: the body of the \<open>try\<close>
  is the same when the loop is started with any value \<open>a\<close> in place of the empty string,
  and the loop's writes and the way it ends do not depend on that value. Chunks are
  handled in arrival order without looking ahead: the loop over a response that goes on
  is the loop over its beginning, continued from the accumulator and the text written
  so far. The accumulator is what the loop keeps of the response, and it keeps the
  whole relayed text: its start value followed by the text written, which for
  well-formed chunks on a standard output that takes them is every delta present and
  not empty.
\<close>

theorem accumulator_unused:
  "try_body svc dev cl p =
     (case svc cl (the_request p) of
        CreateRaise e \<Rightarrow> ([Create cl (the_request p)], Some e, [])
      | Response chunks fin \<Rightarrow>
          (case for_loop dev chunks fin [] a of
             (evs, Some (e, held), full_response) \<Rightarrow>
               (Create cl (the_request p) # evs, Some e, held)
           | (evs, None, full_response) \<Rightarrow>
               (case print_stdout dev (stdout_of evs) [] newline False of
                  (ws, Some (e, held)) \<Rightarrow> (Create cl (the_request p) # evs @ ws, Some e, held)
                | (ws, None) \<Rightarrow> (Create cl (the_request p) # evs @ ws, None, newline)))) \<and>
   fst (for_loop dev cs fin out a) = fst (for_loop dev cs fin out b) \<and>
   fst (snd (for_loop dev cs fin out a)) = fst (snd (for_loop dev cs fin out b)) \<and>
   for_loop dev (cs @ later) fin out a =
     (case for_loop dev cs StopIteration out a of
        (evs, Some x, acc) \<Rightarrow> (evs, Some x, acc)
      | (evs, None, acc) \<Rightarrow>
          (case for_loop dev later fin (out @ stdout_of evs) acc of
             (evs', r) \<Rightarrow> (evs @ evs', r))) \<and>
   snd (snd (for_loop dev cs fin out a)) = a @ stdout_of (fst (for_loop dev cs fin out a)) \<and>
   (well_formed cs \<and> takes dev out (spec_deltas cs) \<longrightarrow>
      fst (for_loop dev cs fin out a) = map StdoutWrite (spec_deltas cs) \<and>
      snd (snd (for_loop dev cs fin out a)) = a @ spec_relayed cs)"
  (is "?body \<and> ?writes \<and> ?ending \<and> ?order \<and> ?kept \<and> ?text")
proof -
  have ?body
    by (simp add: try_body_def for_loop_eq split: create_result.splits)
  moreover have ?writes by (simp add: for_loop_eq)
  moreover have ?ending by (simp add: for_loop_eq)
  moreover have ?order by (rule for_loop_append)
  moreover have ?kept by (simp add: for_loop_eq proj_simps)
  moreover have ?text
  proof
    assume h: "well_formed cs \<and> takes dev out (spec_deltas cs)"
    then have "takes dev out (loop_writes cs)"
      by (simp add: loop_writes_deltas consumed_well_formed)
    then have "relay_writes dev cs out = loop_writes cs"
      by (rule relay_writes_taken)
    with h show "fst (for_loop dev cs fin out a) = map StdoutWrite (spec_deltas cs) \<and>
        snd (snd (for_loop dev cs fin out a)) = a @ spec_relayed cs"
      by (simp add: for_loop_eq loop_writes_deltas consumed_well_formed spec_relayed_def)
  qed
  ultimately show ?thesis by blast
qed

theorem accumulator_unused_witness:
  "well_formed chunks_hello \<and> takes dev_ok [] (spec_deltas chunks_hello) \<and>
   fst (for_loop dev_ok chunks_hello StopIteration [] []) =
     map StdoutWrite [ascii ''Hel'', ascii ''lo'', ascii '' world''] \<and>
   snd (snd (for_loop dev_ok chunks_hello StopIteration [] [])) = ascii ''Hello world''"
proof -
  have 1: "spec_deltas chunks_hello = [ascii ''Hel'', ascii ''lo'', ascii '' world'']"
    by (simp add: spec_deltas_def chunks_hello_def mk_chunk_def ascii_def)
  have 2: "spec_relayed chunks_hello = ascii ''Hello world''"
    by (simp add: spec_relayed_def 1) (simp add: ascii_def)
  from accumulator_unused [of svc_hello dev_ok "ZhipuAI []" "[]" "[]" chunks_hello StopIteration
      "[]" "[]" "[]"]
    chunks_hello_well_formed takes_dev_ok [of "[]" "spec_deltas chunks_hello"] 1 2
  show ?thesis by (simp add: ascii_def)
qed

text \<open>
  The accumulator is not one for the total length only: two responses whose relayed
  texts have the same length leave different values in it.
\<close>

theorem accumulator_unused_counterexample:
  "length (spec_relayed chunks_ab) = length (spec_relayed chunks_cd) \<and>
   snd (snd (for_loop dev_ok chunks_ab StopIteration [] [])) = ascii ''ab'' \<and>
   snd (snd (for_loop dev_ok chunks_cd StopIteration [] [])) = ascii ''cd'' \<and>
   snd (snd (for_loop dev_ok chunks_ab StopIteration [] [])) \<noteq>
     snd (snd (for_loop dev_ok chunks_cd StopIteration [] []))"
  by (simp add: chunks_ab_def chunks_cd_def mk_chunk_def dev_ok_def print_stdout_def
      spec_relayed_def spec_deltas_def ascii_def)



end
